theory Spec2Isabelle
  imports Complex_Main
begin

section \<open>Conventions of the embedding\<close>

text \<open>
  The Python sources are \<^verbatim>\<open>src/storm_radar/models.py\<close>, \<^verbatim>\<open>config.py\<close>,
  \<^verbatim>\<open>calculators.py\<close>, \<^verbatim>\<open>notifiers.py\<close> and \<^verbatim>\<open>main.py\<close>.

  \<^item> A \<^verbatim>\<open>datetime\<close> is an \<open>int\<close>: the number of microseconds since
    0001-01-01 00:00:00 (\<^verbatim>\<open>datetime.min\<close>); a \<^verbatim>\<open>timedelta\<close> is an \<open>int\<close> number
    of microseconds. Python's datetimes have exactly this resolution, so subtraction and
    comparison are those of \<open>int\<close>. Clock readings and the retention horizon are taken
    to be such that \<^verbatim>\<open>now - timedelta(...)\<close> is a representable \<^verbatim>\<open>datetime\<close>.
  \<^item> A Python \<^verbatim>\<open>float\<close> is a \<open>rat\<close>, the exact value of the (finite) float; NaN and
    infinities are outside the model. Comparisons, \<^verbatim>\<open>abs\<close>, \<^verbatim>\<open>max\<close> and \<^verbatim>\<open>min\<close>
    of floats involve no rounding and are those of \<open>rat\<close>. The operations that round
    (\<^verbatim>\<open>sum\<close> of readings, the division by \<^verbatim>\<open>len\<close>, the subtraction of two means) are
    not computed by the model: they are the three functions of a \<open>float_arith\<close>, an
    argument of every function that uses them, and the theorems hold for every such
    arithmetic. The score is a sum of the integers 60, 25, 30, 15, 10 and 5, which float
    addition adds without rounding.
  \<^item> A \<^verbatim>\<open>str\<close> is a \<open>string\<close> holding the UTF-8 bytes of the text. The only text
    operations used are concatenation, \<^verbatim>\<open>join\<close>, equality, the substring test
    \<^verbatim>\<open>in\<close> with an ASCII needle, and \<^verbatim>\<open>upper\<close>/\<^verbatim>\<open>lower\<close> of ASCII words; on these a
    byte sequence and a code point sequence agree.
  \<^item> Every call of \<^verbatim>\<open>datetime.now()\<close> is an explicit argument of the function that
    makes it.
  \<^item> A call of the logger prints to the console and returns nothing, or raises (the
    console raises \<^verbatim>\<open>MarkupError\<close> on text that is not well-formed markup). Whether the
    call at a given place of the source raises is an argument \<open>log_raises\<close> of the function
    that makes the call, a predicate on the places \<open>log_site\<close>.
\<close>

type_synonym datetime = int
type_synonym timedelta = int

definition minutes :: "int \<Rightarrow> timedelta" where
  "minutes n = n * 60000000"

definition hours :: "int \<Rightarrow> timedelta" where
  "hours n = n * 3600000000"

subsection \<open>Text helpers\<close>

definition upper_char :: "char \<Rightarrow> char" where
  "upper_char c =
     (let n = (of_char c :: nat) in if 97 \<le> n \<and> n \<le> 122 then char_of (n - 32) else c)"


definition upper :: "string \<Rightarrow> string" where
  "upper s = map upper_char s"


text \<open>\<^verbatim>\<open>sub in s\<close> on strings: \<open>sub\<close> occurs in \<open>s\<close> as a contiguous block.\<close>

fun str_contains :: "string \<Rightarrow> string \<Rightarrow> bool" where
  "str_contains [] sub = (sub = [])"
| "str_contains (c # cs) sub = (take (length sub) (c # cs) = sub \<or> str_contains cs sub)"

text \<open>\<^verbatim>\<open>d.get(k, default)\<close> on a dictionary.\<close>

definition dict_get :: "('k \<rightharpoonup> 'v) \<Rightarrow> 'k \<Rightarrow> 'v \<Rightarrow> 'v" where
  "dict_get d k dflt = (case d k of None \<Rightarrow> dflt | Some v \<Rightarrow> v)"

section \<open>The notifier (\<^verbatim>\<open>notifiers.py\<close>)\<close>

text \<open>
  The fields of \<^verbatim>\<open>TelegramNotifier\<close> that the gate reads or that a delivery writes.
  \<^verbatim>\<open>bot_token\<close> and \<^verbatim>\<open>chat_id\<close> only go into the HTTP request. \<^verbatim>\<open>alert_levels\<close> is
  the same dictionary in every instance, so it is a constant.
\<close>

record TelegramNotifier =
  last_alert_time :: "datetime option"
  last_alert_score :: rat
  min_alert_level :: string

definition alert_levels :: "string \<rightharpoonup> nat" where
  "alert_levels =
     [''LOW'' \<mapsto> 1, ''MEDIUM'' \<mapsto> 2, ''HIGH'' \<mapsto> 3, ''CRITICAL'' \<mapsto> 4]"


text \<open>
  The test \<^verbatim>\<open>self.last_alert_time is None or now - self.last_alert_time > delta\<close>,
  which the three cooldown branches share.
\<close>

definition no_alert_within :: "TelegramNotifier \<Rightarrow> datetime \<Rightarrow> timedelta \<Rightarrow> bool" where
  "no_alert_within self now delta =
     (case last_alert_time self of None \<Rightarrow> True | Some t \<Rightarrow> now - t > delta)"

text \<open>
  \<^verbatim>\<open>should_send_alert(score, alert_level)\<close>; \<open>now\<close> is the value of its
  \<^verbatim>\<open>datetime.now()\<close>. The function returns a truth value and assigns to no attribute.
\<close>

definition should_send_alert :: "TelegramNotifier \<Rightarrow> datetime \<Rightarrow> rat \<Rightarrow> string \<Rightarrow> bool" where
  "should_send_alert self now score alert_level =
     (let current_level_value = dict_get alert_levels (upper alert_level) 0;
          min_level_value = dict_get alert_levels (min_alert_level self) 2
      in if current_level_value < min_level_value then False
         else if alert_level = ''CRITICAL'' then True
         else if alert_level = ''HIGH'' \<and> score > 60 \<and> no_alert_within self now (minutes 20)
           then True
         else if alert_level = ''MEDIUM'' \<and> score > 40 \<and> no_alert_within self now (minutes 45)
           then True
         else if alert_level = ''LOW'' \<and> score > 20 \<and> no_alert_within self now (hours 2)
           then True
         else if score > last_alert_score self + 25 then True
         else False)"

section \<open>Numbers and text as Python computes them\<close>

text \<open>
  The exceptions of the model: \<^verbatim>\<open>sum(xs) / len(xs)\<close> raises \<^verbatim>\<open>ZeroDivisionError\<close>
  on an empty list, \<^verbatim>\<open>max(xs)\<close> raises \<^verbatim>\<open>ValueError\<close> on an empty sequence,
  \<open>LoggerError\<close> is what a call of the logger raises, and \<open>FetchError\<close> what the call of
  the fetcher raises, should it raise.
\<close>

datatype error = ZeroDivisionError | ValueError | LoggerError | FetchError

text \<open>
  The places where the modelled functions call the logger, in the order of the source:
  the one call of \<^verbatim>\<open>calculate_enhanced_alerts\<close>, the two of \<^verbatim>\<open>run_enhanced_check\<close>, and
  the calls of \<^verbatim>\<open>send_message\<close> (in its \<^verbatim>\<open>try\<close> block, in its handler of
  \<^verbatim>\<open>RequestException\<close>, in its handler of \<^verbatim>\<open>Exception\<close>).
\<close>

datatype log_site =
    LogAlertCalculation
  | LogCycleStart
  | LogNoWeatherData
  | LogTruncated
  | LogBadRequest
  | LogPayload
  | LogRetry
  | LogSent
  | LogNotSent
  | LogSendFailed
  | LogErrorDetails
  | LogResponseText
  | LogNotSentUnexpected
  | LogUnexpected

text \<open>
  Float arithmetic: \<open>fsum xs\<close> is \<^verbatim>\<open>sum(xs)\<close>, \<open>fdiv x n\<close> is \<^verbatim>\<open>x / n\<close> for a
  length \<open>n > 0\<close>, \<open>fsub x y\<close> is \<^verbatim>\<open>x - y\<close>. The values are left open.
\<close>

record float_arith =
  fsum :: "rat list \<Rightarrow> rat"
  fdiv :: "rat \<Rightarrow> nat \<Rightarrow> rat"
  fsub :: "rat \<Rightarrow> rat \<Rightarrow> rat"

definition py_mean :: "float_arith \<Rightarrow> rat list \<Rightarrow> error + rat" where
  "py_mean arith xs =
     (if length xs = 0 then Inl ZeroDivisionError
      else Inr (fdiv arith (fsum arith xs) (length xs)))"

fun py_max :: "rat list \<Rightarrow> error + rat" where
  "py_max [] = Inl ValueError"
| "py_max (x # xs) = Inr (foldl max x xs)"

text \<open>\<^verbatim>\<open>str(n)\<close> of a non-negative integer: its decimal digits.\<close>

definition digit_char :: "nat \<Rightarrow> char" where
  "digit_char d = char_of (48 + d)"

fun str_nat :: "nat \<Rightarrow> string" where
  "str_nat n = (if n < 10 then [digit_char n] else str_nat (n div 10) @ [digit_char (n mod 10)])"

declare str_nat.simps [simp del]

text \<open>
  The format \<^verbatim>\<open>{x:.1f}\<close>: the exact value of the float rounded to one decimal, ties
  to the even neighbour, with a minus sign exactly when \<open>x\<close> is negative (so
  \<^verbatim>\<open>-0.04\<close> prints as \<^verbatim>\<open>-0.0\<close>, as in Python).
\<close>

definition round_half_even :: "rat \<Rightarrow> int" where
  "round_half_even x =
     (let f = \<lfloor>x\<rfloor>; r = x - of_int f
      in if r < 1 / 2 then f else if r > 1 / 2 then f + 1 else if even f then f else f + 1)"

definition fmt1 :: "rat \<Rightarrow> string" where
  "fmt1 x =
     (let n = nat (round_half_even (\<bar>x\<bar> * 10))
      in (if x < 0 then ''-'' else []) @ str_nat (n div 10) @ ''.'' @ [digit_char (n mod 10)])"

text \<open>\<^verbatim>\<open>sep.join(parts)\<close>.\<close>

fun join :: "string \<Rightarrow> string list \<Rightarrow> string" where
  "join sep [] = []"
| "join sep [x] = x"
| "join sep (x # y # ys) = x @ sep @ join sep (y # ys)"

section \<open>The data model (\<^verbatim>\<open>models.py\<close>) and the configuration (\<^verbatim>\<open>config.py\<close>)\<close>

text \<open>
  The three dataclasses all carry a \<^verbatim>\<open>timestamp\<close>; a parent record gives them one
  selector \<open>timestamp\<close>. The other fields are those of the dataclasses.
\<close>

record Reading =
  timestamp :: datetime

record WeatherData = Reading +
  station_name :: string
  temperature :: rat
  pressure :: rat
  humidity :: rat
  wind_speed :: rat
  wind_direction :: rat
  visibility :: "rat option"
  weather_main :: string
  station_type :: string

record MarineData = Reading +
  wave_height :: rat
  wave_period :: rat
  wave_direction :: rat
  sea_temperature :: rat
  location :: string

record LightningData = Reading +
  lat :: rat
  lon :: rat
  distance_km :: rat
  intensity :: rat

text \<open>
  The attributes of \<^verbatim>\<open>Configuration\<close> that the calculator and the notifier read.
  \<open>default_Configuration\<close> holds the values written in \<^verbatim>\<open>config.py\<close> (the two
  environment overrides at their defaults).
\<close>

record Configuration =
  BORA_PRESSURE_DIFF_THRESHOLD :: rat
  BORA_WIND_THRESHOLD :: rat
  HIGH_WIND_THRESHOLD :: rat
  WAVE_HEIGHT_THRESHOLD :: rat
  WAVE_PERIOD_THRESHOLD :: rat
  LIGHTNING_DENSITY_THRESHOLD :: rat
  LIGHTNING_APPROACH_DISTANCE :: rat
  THERMAL_GRADIENT_THRESHOLD :: rat
  MIN_ALERT_LEVEL :: string
  DATA_RETENTION_HOURS :: int

definition default_Configuration :: Configuration where
  "default_Configuration =
     \<lparr>BORA_PRESSURE_DIFF_THRESHOLD = 10, BORA_WIND_THRESHOLD = 40, HIGH_WIND_THRESHOLD = 35,
      WAVE_HEIGHT_THRESHOLD = 2, WAVE_PERIOD_THRESHOLD = 4,
      LIGHTNING_DENSITY_THRESHOLD = 10, LIGHTNING_APPROACH_DISTANCE = 100,
      THERMAL_GRADIENT_THRESHOLD = 8, MIN_ALERT_LEVEL = ''MEDIUM'',
      DATA_RETENTION_HOURS = 12\<rparr>"

section \<open>The calculator (\<^verbatim>\<open>calculators.py\<close>)\<close>

record EnhancedAlertCalculator =
  config :: Configuration
  historical_weather :: "string \<rightharpoonup> WeatherData list"
  historical_marine :: "string \<rightharpoonup> MarineData list"
  historical_lightning :: "LightningData list"

definition EnhancedAlertCalculator_init :: "Configuration \<Rightarrow> EnhancedAlertCalculator" where
  "EnhancedAlertCalculator_init cfg =
     \<lparr>config = cfg, historical_weather = Map.empty, historical_marine = Map.empty,
      historical_lightning = []\<rparr>"

subsection \<open>\<^verbatim>\<open>store_data\<close>\<close>

text \<open>
  One turn of \<^verbatim>\<open>if key not in d: d[key] = []\<close> followed by \<^verbatim>\<open>d[key].append(x)\<close>.
\<close>

definition dict_append :: "('k \<rightharpoonup> 'v list) \<Rightarrow> 'k \<Rightarrow> 'v \<Rightarrow> ('k \<rightharpoonup> 'v list)" where
  "dict_append d k x = (case d k of None \<Rightarrow> d(k \<mapsto> [x]) | Some xs \<Rightarrow> d(k \<mapsto> xs @ [x]))"

text \<open>
  The comprehension \<^verbatim>\<open>[x for x in xs if x.timestamp > cutoff_time]\<close>, and the pruning
  loop \<^verbatim>\<open>for key in d: d[key] = [...]\<close> that applies it to the entry of every key.
\<close>

definition newer_than :: "datetime \<Rightarrow> 'a Reading_scheme list \<Rightarrow> 'a Reading_scheme list" where
  "newer_than cutoff_time ds = filter (\<lambda>d. timestamp d > cutoff_time) ds"

definition prune_dict ::
  "datetime \<Rightarrow> ('k \<rightharpoonup> 'a Reading_scheme list) \<Rightarrow> ('k \<rightharpoonup> 'a Reading_scheme list)" where
  "prune_dict cutoff_time d = (\<lambda>k. map_option (newer_than cutoff_time) (d k))"

text \<open>
  \<^verbatim>\<open>store_data(weather_data, marine_data, lightning_data)\<close>; \<open>now\<close> is the value of
  its \<^verbatim>\<open>datetime.now()\<close>. The result is the calculator after the call.
\<close>

definition store_data ::
  "EnhancedAlertCalculator \<Rightarrow> datetime \<Rightarrow> WeatherData list \<Rightarrow> MarineData list
     \<Rightarrow> LightningData list \<Rightarrow> EnhancedAlertCalculator" where
  "store_data self now weather_data marine_data lightning_data =
     (let hw = foldl (\<lambda>d data. dict_append d (station_name data) data)
                 (historical_weather self) weather_data;
          hm = foldl (\<lambda>d data. dict_append d (location data) data)
                 (historical_marine self) marine_data;
          hl = historical_lightning self @ lightning_data;
          cutoff_time = now - hours (DATA_RETENTION_HOURS (config self))
      in self\<lparr>historical_weather := prune_dict cutoff_time hw,
              historical_marine := prune_dict cutoff_time hm,
              historical_lightning := newer_than cutoff_time hl\<rparr>)"

subsection \<open>\<^verbatim>\<open>check_bora_pattern\<close>\<close>

text \<open>
  The result is \<open>Inr (detected, reason)\<close>, or \<open>Inl e\<close> when an exception \<open>e\<close>
  leaves the function. The two early returns of the source are the two \<open>Inr (False, [])\<close>
  branches.
\<close>

definition check_bora_pattern ::
  "float_arith \<Rightarrow> EnhancedAlertCalculator \<Rightarrow> WeatherData list
     \<Rightarrow> error + (bool \<times> string)" where
  "check_bora_pattern arith self weather_data =
     (let ne_stations =
            filter (\<lambda>d. station_name d \<in> set [''Trieste'', ''Nova_Gorica'', ''Rijeka''])
              weather_data;
          local_stations =
            filter (\<lambda>d. station_name d \<in> set [''Ancona'', ''Falconara'']) weather_data
      in if ne_stations = [] \<or> local_stations = [] then Inr (False, [])
         else
           (case py_mean arith (map pressure ne_stations) of Inl e \<Rightarrow> Inl e
            | Inr avg_ne_pressure \<Rightarrow>
           (case py_mean arith (map pressure local_stations) of Inl e \<Rightarrow> Inl e
            | Inr avg_local_pressure \<Rightarrow>
           (case py_max (map wind_speed ne_stations) of Inl e \<Rightarrow> Inl e
            | Inr max_ne_wind \<Rightarrow>
             let pressure_diff = fsub arith avg_ne_pressure avg_local_pressure;
                 ne_wind_from_correct_direction =
                   list_ex (\<lambda>s. wind_speed s > 30 \<and> 0 \<le> wind_direction s
                                 \<and> wind_direction s \<le> 90) ne_stations
             in if pressure_diff > BORA_PRESSURE_DIFF_THRESHOLD (config self)
                   \<and> max_ne_wind > BORA_WIND_THRESHOLD (config self)
                   \<and> ne_wind_from_correct_direction
                then Inr (True,
                          ''BORA PATTERN DETECTED: Pressure diff '' @ fmt1 pressure_diff
                          @ ''hPa, NE winds '' @ fmt1 max_ne_wind @ ''km/h'')
                else Inr (False, [])))))"

subsection \<open>\<^verbatim>\<open>calculate_enhanced_alerts\<close>\<close>

text \<open>
  The function threads three local variables, \<^verbatim>\<open>score\<close>, \<^verbatim>\<open>reasons\<close> and
  \<^verbatim>\<open>alert_level\<close>, through five numbered blocks. Each block is one function here on the
  triple of these variables, and \<open>accumulate_score\<close> runs them in the source's order.
  The non-ASCII characters of the literals are written as their UTF-8 bytes.
\<close>

type_synonym alert_vars = "rat \<times> string list \<times> string"

definition bora_tag :: string where
  "bora_tag = [CHR 0xF0, CHR 0x9F, CHR 0x8C, CHR 0xAA, CHR 0xEF, CHR 0xB8, CHR 0x8F] @ '' BORA: ''"

definition marine_tag :: string where
  "marine_tag = [CHR 0xF0, CHR 0x9F, CHR 0x8C, CHR 0x8A] @ '' MARINE: ''"

definition lightning_tag :: string where
  "lightning_tag = [CHR 0xE2, CHR 0x9A, CHR 0xA1] @ '' LIGHTNING: Lightning approaching: ''"

definition thermal_tag :: string where
  "thermal_tag =
     [CHR 0xF0, CHR 0x9F, CHR 0x8C, CHR 0xA1, CHR 0xEF, CHR 0xB8, CHR 0x8F]
     @ '' THERMAL: High thermal gradient: ''"

definition degree_C :: string where
  "degree_C = [CHR 0xC2, CHR 0xB0] @ ''C''"

text \<open>Block 1, Bora detection.\<close>

definition bora_block ::
  "float_arith \<Rightarrow> EnhancedAlertCalculator \<Rightarrow> WeatherData list \<Rightarrow> alert_vars
     \<Rightarrow> error + (bool \<times> alert_vars)" where
  "bora_block arith self weather_data vars =
     (case vars of (score, reasons, alert_level) \<Rightarrow>
        (case check_bora_pattern arith self weather_data of Inl e \<Rightarrow> Inl e
         | Inr (bora_detected, bora_reason) \<Rightarrow>
             if bora_detected
             then Inr (bora_detected, (score + 60, reasons @ [bora_tag @ bora_reason], ''CRITICAL''))
             else Inr (bora_detected, vars)))"

text \<open>
  Block 2, marine conditions. \<open>marine_alerts_of\<close> is what one turn of the loop
  appends to \<^verbatim>\<open>marine_alerts\<close>.
\<close>

definition marine_alerts_of :: "EnhancedAlertCalculator \<Rightarrow> MarineData \<Rightarrow> string list" where
  "marine_alerts_of self data =
     (if wave_period data < WAVE_PERIOD_THRESHOLD (config self)
      then [location data @ '': Short wave period '' @ fmt1 (wave_period data) @ ''s'']
      else [])
     @ (if wave_height data > WAVE_HEIGHT_THRESHOLD (config self)
        then [location data @ '': High waves '' @ fmt1 (wave_height data) @ ''m'']
        else [])"

definition marine_block :: "EnhancedAlertCalculator \<Rightarrow> MarineData list \<Rightarrow> alert_vars \<Rightarrow> alert_vars" where
  "marine_block self marine_data vars =
     (case vars of (score, reasons, alert_level) \<Rightarrow>
        if marine_data = [] then vars
        else
          let marine_alerts = concat (map (marine_alerts_of self) marine_data)
          in if marine_alerts = [] then vars
             else (score + 25, reasons @ [marine_tag @ join ''; '' marine_alerts], alert_level))"

text \<open>Block 3, lightning activity; \<open>now\<close> is the value of its \<^verbatim>\<open>datetime.now()\<close>.\<close>

definition lightning_block ::
  "float_arith \<Rightarrow> EnhancedAlertCalculator \<Rightarrow> datetime \<Rightarrow> LightningData list \<Rightarrow> alert_vars
     \<Rightarrow> error + alert_vars" where
  "lightning_block arith self now lightning_data vars =
     (case vars of (score, reasons, alert_level) \<Rightarrow>
        if lightning_data = [] then Inr vars
        else
          let recent_time = now - minutes 10;
              nearby_strikes =
                filter (\<lambda>strike. timestamp strike > recent_time
                          \<and> distance_km strike < LIGHTNING_APPROACH_DISTANCE (config self))
                  lightning_data
          in if of_nat (length nearby_strikes) > LIGHTNING_DENSITY_THRESHOLD (config self)
             then
               (case py_mean arith (map distance_km nearby_strikes) of Inl e \<Rightarrow> Inl e
                | Inr avg_distance \<Rightarrow>
                    Inr (score + 30,
                         reasons @ [lightning_tag @ str_nat (length nearby_strikes)
                                    @ '' strikes, avg distance '' @ fmt1 avg_distance @ ''km''],
                         alert_level))
             else Inr vars)"

text \<open>Block 4, thermal gradient.\<close>

definition thermal_block ::
  "float_arith \<Rightarrow> EnhancedAlertCalculator \<Rightarrow> WeatherData list \<Rightarrow> alert_vars
     \<Rightarrow> error + alert_vars" where
  "thermal_block arith self weather_data vars =
     (case vars of (score, reasons, alert_level) \<Rightarrow>
        let coastal_temps =
              map temperature (filter (\<lambda>d. station_type d = ''coastal'') weather_data);
            inland_temps =
              map temperature (filter (\<lambda>d. station_type d = ''inland'') weather_data)
        in if coastal_temps = [] \<or> inland_temps = [] then Inr vars
           else
             (case py_mean arith coastal_temps of Inl e \<Rightarrow> Inl e
              | Inr avg_coastal \<Rightarrow>
             (case py_mean arith inland_temps of Inl e \<Rightarrow> Inl e
              | Inr avg_inland \<Rightarrow>
               let gradient = \<bar>fsub arith avg_inland avg_coastal\<bar>
               in if gradient > THERMAL_GRADIENT_THRESHOLD (config self)
                  then Inr (score + 15,
                            reasons @ [thermal_tag @ fmt1 gradient @ degree_C
                                       @ '' difference (Inland: '' @ fmt1 avg_inland @ degree_C
                                       @ '', Coastal: '' @ fmt1 avg_coastal @ degree_C @ '')''],
                            alert_level)
                  else Inr vars)))"

text \<open>
  \<^verbatim>\<open>_calculate_traditional_patterns\<close>: the body of its loop, on the running
  \<^verbatim>\<open>score\<close>, and the loop from \<^verbatim>\<open>score = 0.0\<close>.
\<close>

definition traditional_turn :: "EnhancedAlertCalculator \<Rightarrow> rat \<Rightarrow> WeatherData \<Rightarrow> rat" where
  "traditional_turn self score data =
     (let score = (if wind_speed data > HIGH_WIND_THRESHOLD (config self)
                   then score + 10 else score);
          score = (if weather_main data \<in> set [''Thunderstorm'', ''Rain'']
                   then score + 15 else score);
          score = (if humidity data > 85 then score + 5 else score)
      in score)"

definition calculate_traditional_patterns :: "EnhancedAlertCalculator \<Rightarrow> WeatherData list \<Rightarrow> rat" where
  "calculate_traditional_patterns self weather_data =
     foldl (traditional_turn self) 0 weather_data"

text \<open>
  Blocks 1 to 5 from \<^verbatim>\<open>score = 0.0\<close>, \<^verbatim>\<open>reasons = []\<close>, \<^verbatim>\<open>alert_level = "LOW"\<close>:
  the Bora flag and the three variables as they stand just before the level is determined.
\<close>

definition accumulate_score ::
  "float_arith \<Rightarrow> EnhancedAlertCalculator \<Rightarrow> datetime \<Rightarrow> WeatherData list
     \<Rightarrow> MarineData list \<Rightarrow> LightningData list \<Rightarrow> error + (bool \<times> alert_vars)" where
  "accumulate_score arith self now weather_data marine_data lightning_data =
     (case bora_block arith self weather_data (0, [], ''LOW'') of Inl e \<Rightarrow> Inl e
      | Inr (bora_detected, vars1) \<Rightarrow>
      (case lightning_block arith self now lightning_data
              (marine_block self marine_data vars1) of
         Inl e \<Rightarrow> Inl e
       | Inr vars3 \<Rightarrow>
      (case thermal_block arith self weather_data vars3 of Inl e \<Rightarrow> Inl e
       | Inr (score, reasons, alert_level) \<Rightarrow>
           Inr (bora_detected,
                (score + calculate_traditional_patterns self weather_data, reasons,
                 alert_level)))))"

text \<open>\<^verbatim>\<open>get_enhanced_eta(reasons, bora_detected)\<close>.\<close>

definition get_enhanced_eta :: "string list \<Rightarrow> bool \<Rightarrow> string" where
  "get_enhanced_eta reasons bora_detected =
     (if bora_detected then ''15-45 minutes (BORA - IMMEDIATE DANGER)''
      else if list_ex (\<lambda>reason. str_contains reason ''LIGHTNING'') reasons
        then ''30-60 minutes''
      else if list_ex (\<lambda>reason. str_contains reason ''MARINE'') reasons
        then ''45-90 minutes''
      else if list_ex (\<lambda>reason. str_contains reason ''Gubbio''
                                  \<or> str_contains reason ''Fabriano'') reasons
        then ''1-2 hours''
      else ''2-3 hours'')"

text \<open>
  The level assignment, the clamp, the ETA and the call
  \<^verbatim>\<open>logger.log_alert_calculation(final_score, reasons, alert_level, eta)\<close>, which prints
  the reasons as console markup and raises when \<open>log_raises LogAlertCalculation\<close>.
  \<open>calculate_with_eta\<close> also gives the \<^verbatim>\<open>eta\<close> that the function computes from its
  own \<^verbatim>\<open>reasons\<close> and \<^verbatim>\<open>bora_detected\<close> and passes to the logger;
  \<open>calculate_enhanced_alerts\<close> is the returned triple
  \<^verbatim>\<open>(final_score, reasons, alert_level)\<close>.
\<close>

definition calculate_with_eta ::
  "float_arith \<Rightarrow> (log_site \<Rightarrow> bool) \<Rightarrow> EnhancedAlertCalculator \<Rightarrow> datetime
     \<Rightarrow> WeatherData list \<Rightarrow> MarineData list \<Rightarrow> LightningData list
     \<Rightarrow> error + ((rat \<times> string list \<times> string) \<times> string)" where
  "calculate_with_eta arith log_raises self now weather_data marine_data lightning_data =
     (case accumulate_score arith self now weather_data marine_data lightning_data of
        Inl e \<Rightarrow> Inl e
      | Inr (bora_detected, (score, reasons, alert_level)) \<Rightarrow>
          let alert_level =
                (if alert_level = ''CRITICAL'' then alert_level
                 else if score > 70 then ''HIGH''
                 else if score > 40 then ''MEDIUM''
                 else if score > 20 then ''LOW''
                 else alert_level);
              final_score = min score 100;
              eta = get_enhanced_eta reasons bora_detected
          in if log_raises LogAlertCalculation then Inl LoggerError
             else Inr ((final_score, reasons, alert_level), eta))"

definition calculate_enhanced_alerts ::
  "float_arith \<Rightarrow> (log_site \<Rightarrow> bool) \<Rightarrow> EnhancedAlertCalculator \<Rightarrow> datetime
     \<Rightarrow> WeatherData list \<Rightarrow> MarineData list \<Rightarrow> LightningData list
     \<Rightarrow> error + (rat \<times> string list \<times> string)" where
  "calculate_enhanced_alerts arith log_raises self now weather_data marine_data lightning_data =
     map_sum id fst
       (calculate_with_eta arith log_raises self now weather_data marine_data lightning_data)"

section \<open>Delivery (\<^verbatim>\<open>send_message\<close>) and one cycle (\<^verbatim>\<open>run_enhanced_check\<close>)\<close>



















section \<open>Readings of the test suite\<close>

text \<open>
  Concrete inputs after \<^verbatim>\<open>tests/test_calculators.py\<close>: the two stations of
  \<^verbatim>\<open>test_check_bora_pattern_detected\<close>, an inland station cold enough for the thermal
  gradient to exceed its threshold beside them, the marine reading of
  \<^verbatim>\<open>sample_marine_data\<close> and a lightning strike of
  \<^verbatim>\<open>test_calculate_enhanced_alerts_with_lightning\<close>. The tests read the clock for the
  timestamps; \<open>test_now\<close> stands for that reading (a moment in the year 2025).
\<close>

definition test_now :: datetime where
  "test_now = 63900000000000000"

text \<open>
  An arithmetic without rounding, and a logger that never raises. On the readings below
  float arithmetic is this arithmetic: their sums, quotients and differences (1025, 1010
  and 15 for the pressures; 33, 16.5, 2 and 14.5 for the temperatures; 550 and 50 for the
  eleven strikes) are floats, which the operations then return exactly.
\<close>

definition exact_arith :: float_arith where
  "exact_arith = \<lparr>fsum = sum_list, fdiv = (\<lambda>x n. x / of_nat n), fsub = (\<lambda>x y. x - y)\<rparr>"

definition quiet_logger :: "log_site \<Rightarrow> bool" where
  "quiet_logger site = False"

definition test_calculator :: EnhancedAlertCalculator where
  "test_calculator = EnhancedAlertCalculator_init default_Configuration"

definition trieste_bora :: WeatherData where
  "trieste_bora =
     \<lparr>timestamp = test_now, station_name = ''Trieste'', temperature = 15, pressure = 1025,
      humidity = 70, wind_speed = 50, wind_direction = 45, visibility = None,
      weather_main = [], station_type = ''coastal''\<rparr>"

definition ancona_calm :: WeatherData where
  "ancona_calm =
     \<lparr>timestamp = test_now, station_name = ''Ancona'', temperature = 18, pressure = 1010,
      humidity = 65, wind_speed = 25, wind_direction = 180, visibility = None,
      weather_main = [], station_type = ''coastal''\<rparr>"

definition gubbio_cold :: WeatherData where
  "gubbio_cold =
     \<lparr>timestamp = test_now, station_name = ''Gubbio'', temperature = 2, pressure = 1010,
      humidity = 80, wind_speed = 30, wind_direction = 225, visibility = None,
      weather_main = [], station_type = ''inland''\<rparr>"

definition falconara_rough :: MarineData where
  "falconara_rough =
     \<lparr>timestamp = test_now, wave_height = 5 / 2, wave_period = 3, wave_direction = 90,
      sea_temperature = 16, location = ''Falconara_Offshore''\<rparr>"

definition strike_nearby :: LightningData where
  "strike_nearby =
     \<lparr>timestamp = test_now - minutes 2, lat = 87 / 2, lon = 133 / 10, distance_km = 50,
      intensity = 80\<rparr>"



section \<open>The notification gate\<close>

lemma upper_level_names:
  "upper ''LOW'' = ''LOW''" "upper ''MEDIUM'' = ''MEDIUM''" "upper ''HIGH'' = ''HIGH''"
  "upper ''CRITICAL'' = ''CRITICAL''"
  by (simp_all add: upper_def upper_char_def)

lemma alert_levels_at_most_4: "dict_get alert_levels k dflt \<le> max dflt 4"
  by (auto simp: dict_get_def alert_levels_def)

lemma alert_levels_values:
  "dict_get alert_levels ''LOW'' dflt = 1" "dict_get alert_levels ''MEDIUM'' dflt = 2"
  "dict_get alert_levels ''HIGH'' dflt = 3" "dict_get alert_levels ''CRITICAL'' dflt = 4"
  by (simp_all add: dict_get_def alert_levels_def)

text \<open>
  \<^bold>\<open>C1\<close>: the cooldown comparisons are meant to be inclusive at the boundary: with a
  prior notification exactly 20 minutes before \<open>now\<close>, level HIGH, a score above 60, a
  minimum level that admits HIGH and no score jump, the gate is to answer true (likewise
  at exactly 45 minutes for MEDIUM and exactly 2 hours for LOW), and
  \<^verbatim>\<open>test_alert_timing_edge_cases\<close> of \<^verbatim>\<open>tests/test_notifiers.py\<close> asserts so for
  "exactly 20 minutes" and "exactly 45 minutes" (its own notifier has a last score of 0,
  so that there the score jump answers true). The source compares with \<^verbatim>\<open>>\<close>, and the
  gate answers false at the boundary. The three notifiers below were last notified at time 0 with
  the score of the query, so that the score jump cannot decide; the query comes exactly
  one cooldown later; the level is at or above the minimum level.
\<close>

theorem cooldown_boundary_excluded:
  "should_send_alert
     \<lparr>last_alert_time = Some 0, last_alert_score = 65, min_alert_level = ''MEDIUM''\<rparr>
     (minutes 20) 65 ''HIGH'' = False
   \<and> should_send_alert
     \<lparr>last_alert_time = Some 0, last_alert_score = 45, min_alert_level = ''MEDIUM''\<rparr>
     (minutes 45) 45 ''MEDIUM'' = False
   \<and> should_send_alert
     \<lparr>last_alert_time = Some 0, last_alert_score = 25, min_alert_level = ''LOW''\<rparr>
     (hours 2) 25 ''LOW'' = False"
  by (simp add: should_send_alert_def upper_level_names alert_levels_values
      no_alert_within_def minutes_def hours_def)

text \<open>
  \<^bold>\<open>C4\<close>: the minimum-level floor dominates every other rule. Whenever the ordinal of
  the current level (looked up in \<open>alert_levels\<close>, 0 for an unknown name) is strictly below
  the ordinal of the configured minimum level (2 for an unknown name), the gate answers
  false, whatever the notifier's history and the score, so also when the score exceeds
  the prior-notified score by more than 25.
\<close>

theorem minimum_level_floor:
  assumes "dict_get alert_levels (upper alert_level) 0
             < dict_get alert_levels (min_alert_level self) 2"
  shows "should_send_alert self now score alert_level = False"
  using assms by (simp add: should_send_alert_def Let_def)

theorem minimum_level_floor_witness:
  "last_alert_score
      \<lparr>last_alert_time = None, last_alert_score = 0, min_alert_level = ''MEDIUM''\<rparr> + 25
     < (90 :: rat)
   \<and> should_send_alert
       \<lparr>last_alert_time = None, last_alert_score = 0, min_alert_level = ''MEDIUM''\<rparr>
       0 90 ''LOW'' = False"
  using minimum_level_floor [of "''LOW''"
      "\<lparr>last_alert_time = None, last_alert_score = 0, min_alert_level = ''MEDIUM''\<rparr>" 0 90]
  by (simp add: upper_level_names alert_levels_values)

text \<open>
  \<^bold>\<open>C5\<close>: a CRITICAL alert is always sent. For every notifier (any last notification
  time, also one equal to \<open>now\<close>, any last notified score, any configured minimum level)
  and every score, the gate answers true for level CRITICAL.
\<close>

theorem critical_always_sent:
  "should_send_alert self now score ''CRITICAL'' = True"
  using alert_levels_at_most_4 [of "min_alert_level self" 2]
  by (simp add: should_send_alert_def upper_level_names alert_levels_values Let_def)

section \<open>The scoring engine\<close>

subsection \<open>Means, maxima and the per-station score\<close>

lemma py_mean_nonempty: "xs \<noteq> [] \<Longrightarrow> py_mean arith xs = Inr (fdiv arith (fsum arith xs) (length xs))"
  by (simp add: py_mean_def)

lemma foldl_max_Max: "foldl max (x::rat) xs = Max (set (x # xs))"
proof -
  have "foldl max x xs = fold max xs x"
    by (simp add: foldl_conv_fold max.commute)
  then show ?thesis
    by (simp only: Max.set_eq_fold)
qed

lemma py_max_nonempty: "xs \<noteq> [] \<Longrightarrow> py_max xs = Inr (Max (set xs))"
  by (cases xs) (simp_all add: foldl_max_Max del: Max_insert)

lemma foldl_traditional_ge: "s \<le> foldl (traditional_turn self) s ws"
proof (induction ws arbitrary: s)
  case Nil
  show ?case by simp
next
  case (Cons d ws)
  have "s \<le> traditional_turn self s d"
    by (simp add: traditional_turn_def Let_def)
  also have "\<dots> \<le> foldl (traditional_turn self) (traditional_turn self s d) ws"
    by (rule Cons.IH)
  finally show ?case by simp
qed

lemma traditional_nonneg: "0 \<le> calculate_traditional_patterns self ws"
  unfolding calculate_traditional_patterns_def by (rule foldl_traditional_ge)

lemma foldl_traditional_sum:
  "foldl (traditional_turn self) s ws =
     s + (\<Sum>d\<leftarrow>ws. (if wind_speed d > HIGH_WIND_THRESHOLD (config self) then 10 else 0)
                   + (if weather_main d \<in> {''Thunderstorm'', ''Rain''} then 15 else 0)
                   + (if humidity d > 85 then 5 else 0))"
  by (induction ws arbitrary: s) (simp_all add: traditional_turn_def Let_def)

lemma calculate_traditional_patterns_sum:
  "calculate_traditional_patterns self ws =
     (\<Sum>d\<leftarrow>ws. (if wind_speed d > HIGH_WIND_THRESHOLD (config self) then 10 else 0)
                   + (if weather_main d \<in> {''Thunderstorm'', ''Rain''} then 15 else 0)
                   + (if humidity d > 85 then 5 else 0))"
  by (simp add: calculate_traditional_patterns_def foldl_traditional_sum)

subsection \<open>Evaluation of the text functions and of the test readings\<close>

lemma floor_rat_numeral_divide:
  "\<lfloor>numeral a / numeral b :: rat\<rfloor> = numeral a div numeral b"
  using floor_divide_of_int_eq [of "numeral a" "numeral b", where ?'a = rat] by simp

lemma str_nat_eval:
  "str_nat 0 = ''0''" "str_nat (Suc 0) = ''1''"
  "str_nat (numeral k) =
     (if numeral k < (10::nat) then [digit_char (numeral k)]
      else str_nat (numeral k div 10) @ [digit_char (numeral k mod 10)])"
  by (subst str_nat.simps, simp add: digit_char_def char_of_eq_iff)+

lemmas text_eval = fmt1_def round_half_even_def str_nat_eval digit_char_def char_of_eq_iff Let_def
  floor_rat_numeral_divide

lemmas sample_defs = test_calculator_def EnhancedAlertCalculator_init_def default_Configuration_def
  trieste_bora_def ancona_calm_def gubbio_cold_def falconara_rough_def strike_nearby_def
  test_now_def minutes_def exact_arith_def quiet_logger_def

lemma sample_threshold: "0 \<le> LIGHTNING_DENSITY_THRESHOLD (config test_calculator)"
  by (simp add: sample_defs)

lemma sample_logger: "\<not> quiet_logger site"
  by (simp add: quiet_logger_def)

subsection \<open>The Bora detector\<close>

lemma check_bora_pattern_eq:
  "check_bora_pattern arith self w =
     (let ne = filter (\<lambda>d. station_name d \<in> {''Trieste'', ''Nova_Gorica'', ''Rijeka''}) w;
          loc = filter (\<lambda>d. station_name d \<in> {''Ancona'', ''Falconara''}) w;
          diff = fsub arith (fdiv arith (fsum arith (map pressure ne)) (length ne))
                   (fdiv arith (fsum arith (map pressure loc)) (length loc));
          mx = Max (set (map wind_speed ne))
      in if ne \<noteq> [] \<and> loc \<noteq> []
            \<and> diff > BORA_PRESSURE_DIFF_THRESHOLD (config self)
            \<and> mx > BORA_WIND_THRESHOLD (config self)
            \<and> (\<exists>s \<in> set ne. wind_speed s > 30 \<and> 0 \<le> wind_direction s \<and> wind_direction s \<le> 90)
         then Inr (True, ''BORA PATTERN DETECTED: Pressure diff '' @ fmt1 diff
                          @ ''hPa, NE winds '' @ fmt1 mx @ ''km/h'')
         else Inr (False, []))"
proof -
  define ne where "ne = filter (\<lambda>d. station_name d \<in> set [''Trieste'', ''Nova_Gorica'', ''Rijeka'']) w"
  define loc where "loc = filter (\<lambda>d. station_name d \<in> set [''Ancona'', ''Falconara'']) w"
  have ne_eq: "filter (\<lambda>d. station_name d \<in> {''Trieste'', ''Nova_Gorica'', ''Rijeka''}) w = ne"
    and loc_eq: "filter (\<lambda>d. station_name d \<in> {''Ancona'', ''Falconara''}) w = loc"
    by (simp_all add: ne_def loc_def)
  show ?thesis
  proof (cases "ne = [] \<or> loc = []")
    case True
    then show ?thesis
      unfolding check_bora_pattern_def Let_def ne_eq loc_eq ne_def [symmetric] loc_def [symmetric]
      by auto
  next
    case False
    then have m1: "py_mean arith (map pressure ne)
        = Inr (fdiv arith (fsum arith (map pressure ne)) (length ne))"
      and m2: "py_mean arith (map pressure loc)
        = Inr (fdiv arith (fsum arith (map pressure loc)) (length loc))"
      and m3: "py_max (map wind_speed ne) = Inr (Max (set (map wind_speed ne)))"
      by (simp_all add: py_mean_nonempty py_max_nonempty)
    from False show ?thesis
      unfolding check_bora_pattern_def Let_def ne_eq loc_eq ne_def [symmetric] loc_def [symmetric]
      by (simp add: m1 m2 m3 list_ex_iff del: set_map)
  qed
qed

lemma check_bora_pattern_total:
  "\<exists>b reason. check_bora_pattern arith self w = Inr (b, reason)
     \<and> (b \<longrightarrow> (\<exists>x y. reason = ''BORA PATTERN DETECTED: Pressure diff '' @ fmt1 x
                          @ ''hPa, NE winds '' @ fmt1 y @ ''km/h''))"
  unfolding check_bora_pattern_eq Let_def by (auto simp del: set_map)

lemma sample_bora:
  "check_bora_pattern exact_arith test_calculator [trieste_bora, ancona_calm] =
     Inr (True, ''BORA PATTERN DETECTED: Pressure diff 15.0hPa, NE winds 50.0km/h'')"
  "check_bora_pattern exact_arith test_calculator [trieste_bora, ancona_calm, gubbio_cold] =
     Inr (True, ''BORA PATTERN DETECTED: Pressure diff 15.0hPa, NE winds 50.0km/h'')"
  by (simp_all add: check_bora_pattern_def py_mean_def sample_defs text_eval)

text \<open>
  \<^bold>\<open>C3\<close>: \<^verbatim>\<open>check_bora_pattern\<close> always returns, and it reports detected if and only if
  the north-east reference readings (stations Trieste, Nova_Gorica, Rijeka) are not
  empty, the local readings (stations Ancona, Falconara) are not empty, the mean reference
  pressure minus the mean local pressure is strictly greater than
  \<^verbatim>\<open>BORA_PRESSURE_DIFF_THRESHOLD\<close>, the maximum reference wind speed is strictly greater
  than \<^verbatim>\<open>BORA_WIND_THRESHOLD\<close>, and some reference reading has a wind speed above 30
  and a wind direction in \<open>[0, 90]\<close>. In particular it reports not detected when either
  subset is empty. The two means and their difference are the floats that the program
  computes, \<^verbatim>\<open>sum(...) / len(...)\<close> and \<^verbatim>\<open>avg_ne_pressure - avg_local_pressure\<close>, in
  whatever way the float arithmetic of the call rounds them; the statement holds for
  every \<open>float_arith\<close>. (It is not a statement about the exact means: where these lie
  within rounding of the threshold, the program follows its floats.)
\<close>

theorem check_bora_pattern_detected_iff:
  "let ne = filter (\<lambda>d. station_name d \<in> {''Trieste'', ''Nova_Gorica'', ''Rijeka''}) weather_data;
       loc = filter (\<lambda>d. station_name d \<in> {''Ancona'', ''Falconara''}) weather_data
   in \<exists>reason. check_bora_pattern arith self weather_data =
        Inr (ne \<noteq> [] \<and> loc \<noteq> []
             \<and> fsub arith (fdiv arith (fsum arith (map pressure ne)) (length ne))
                   (fdiv arith (fsum arith (map pressure loc)) (length loc))
                 > BORA_PRESSURE_DIFF_THRESHOLD (config self)
             \<and> Max (set (map wind_speed ne)) > BORA_WIND_THRESHOLD (config self)
             \<and> (\<exists>s \<in> set ne. wind_speed s > 30 \<and> 0 \<le> wind_direction s
                                \<and> wind_direction s \<le> 90),
             reason)"
  unfolding check_bora_pattern_eq Let_def by simp

theorem check_bora_pattern_detected_iff_witness:
  "(\<exists>reason. check_bora_pattern exact_arith test_calculator [trieste_bora, ancona_calm] = Inr (True, reason))
   \<and> (\<exists>reason. check_bora_pattern exact_arith test_calculator [ancona_calm] = Inr (False, reason))
   \<and> (\<exists>reason. check_bora_pattern exact_arith test_calculator [trieste_bora] = Inr (False, reason))
   \<and> (\<exists>reason. check_bora_pattern exact_arith test_calculator
          [trieste_bora\<lparr>wind_direction := 91\<rparr>, ancona_calm] = Inr (False, reason))"
  using
    check_bora_pattern_detected_iff [where arith = exact_arith and self = test_calculator
      and weather_data = "[trieste_bora, ancona_calm]"]
    check_bora_pattern_detected_iff [where arith = exact_arith and self = test_calculator
      and weather_data = "[ancona_calm]"]
    check_bora_pattern_detected_iff [where arith = exact_arith and self = test_calculator
      and weather_data = "[trieste_bora]"]
    check_bora_pattern_detected_iff [where arith = exact_arith and self = test_calculator
      and weather_data = "[trieste_bora\<lparr>wind_direction := 91\<rparr>, ancona_calm]"]
  by (simp add: sample_defs)

subsection \<open>The blocks of \<^verbatim>\<open>calculate_enhanced_alerts\<close>\<close>

lemma bora_block_eq:
  "check_bora_pattern arith self w = Inr (b, reason) \<Longrightarrow>
   bora_block arith self w (s, r, l) =
     Inr (b, (if b then (s + 60, r @ [bora_tag @ reason], ''CRITICAL'') else (s, r, l)))"
  by (simp add: bora_block_def)

lemma marine_block_eq:
  "marine_block self m (s, r, l) =
     (if concat (map (marine_alerts_of self) m) = [] then (s, r, l)
      else (s + 25, r @ [marine_tag @ join ''; '' (concat (map (marine_alerts_of self) m))], l))"
  by (simp add: marine_block_def Let_def)

lemma marine_alerts_empty_iff:
  "concat (map (marine_alerts_of self) m) = [] \<longleftrightarrow>
   \<not> (\<exists>d \<in> set m. wave_period d < WAVE_PERIOD_THRESHOLD (config self)
                    \<or> wave_height d > WAVE_HEIGHT_THRESHOLD (config self))"
  by (auto simp: marine_alerts_of_def)

lemma lightning_block_cases:
  assumes "0 \<le> LIGHTNING_DENSITY_THRESHOLD (config self)"
  shows "\<exists>p rs. (\<forall>s r l. lightning_block arith self now ld (s, r, l) = Inr (s + p, r @ rs, l))
           \<and> ((p = 0 \<and> rs = []) \<or> (p = 30 \<and> (\<exists>text. rs = [lightning_tag @ text])))"
proof -
  define nearby where "nearby = filter (\<lambda>strike. timestamp strike > now - minutes 10
      \<and> distance_km strike < LIGHTNING_APPROACH_DISTANCE (config self)) ld"
  show ?thesis
  proof (cases "ld \<noteq> [] \<and> of_nat (length nearby) > LIGHTNING_DENSITY_THRESHOLD (config self)")
    case True
    with assms have "nearby \<noteq> []" by auto
    then have "py_mean arith (map distance_km nearby)
        = Inr (fdiv arith (fsum arith (map distance_km nearby)) (length nearby))"
      by (simp add: py_mean_def)
    with True have "\<forall>s r l. lightning_block arith self now ld (s, r, l) = Inr (s + 30, r @ [lightning_tag @ (str_nat (length nearby)
                                   @ '' strikes, avg distance '' @ fmt1 (fdiv arith (fsum arith (map distance_km nearby)) (length nearby)) @ ''km'')], l)"
      by (simp add: lightning_block_def Let_def nearby_def [symmetric])
    then show ?thesis by blast
  next
    case False
    then have "\<forall>s r l. lightning_block arith self now ld (s, r, l) = Inr (s + 0, r @ [], l)"
      by (auto simp: lightning_block_def Let_def nearby_def [symmetric])
    then show ?thesis by blast
  qed
qed

lemma thermal_block_cases:
  "\<exists>p rs. (\<forall>s r l. thermal_block arith self w (s, r, l) = Inr (s + p, r @ rs, l))
           \<and> ((p = 0 \<and> rs = []) \<or> (p = 15 \<and> (\<exists>g a b. rs = [thermal_tag @ fmt1 g @ degree_C
                                       @ '' difference (Inland: '' @ fmt1 a @ degree_C
                                       @ '', Coastal: '' @ fmt1 b @ degree_C @ '')''])))"
proof -
  define ct where "ct = map temperature (filter (\<lambda>d. station_type d = ''coastal'') w)"
  define it where "it = map temperature (filter (\<lambda>d. station_type d = ''inland'') w)"
  define g where "g = \<bar>fsub arith (fdiv arith (fsum arith it) (length it))
                            (fdiv arith (fsum arith ct) (length ct))\<bar>"
  show ?thesis
  proof (cases "ct \<noteq> [] \<and> it \<noteq> [] \<and> g > THERMAL_GRADIENT_THRESHOLD (config self)")
    case True
    then have "\<forall>s r l. thermal_block arith self w (s, r, l) = Inr (s + 15, r @ [thermal_tag @ fmt1 g @ degree_C
                                       @ '' difference (Inland: '' @ fmt1 (fdiv arith (fsum arith it) (length it)) @ degree_C
                                       @ '', Coastal: '' @ fmt1 (fdiv arith (fsum arith ct) (length ct)) @ degree_C @ '')''], l)"
      by (simp add: thermal_block_def Let_def ct_def [symmetric] it_def [symmetric] py_mean_def g_def)
    then show ?thesis by blast
  next
    case False
    then have "\<forall>s r l. thermal_block arith self w (s, r, l) = Inr (s + 0, r @ [], l)"
      by (auto simp: thermal_block_def Let_def ct_def [symmetric] it_def [symmetric] py_mean_def g_def)
    then show ?thesis by blast
  qed
qed

lemma accumulate_score_cases:
  assumes "0 \<le> LIGHTNING_DENSITY_THRESHOLD (config self)"
  obtains b reason p3 rs3 p4 rs4 where
    "check_bora_pattern arith self w = Inr (b, reason)"
    "b \<longrightarrow> (\<exists>x y. reason = ''BORA PATTERN DETECTED: Pressure diff '' @ fmt1 x
                          @ ''hPa, NE winds '' @ fmt1 y @ ''km/h'')"
    "\<And>m. accumulate_score arith self now w m l =
       Inr (b, ((if b then 60 else 0)
                + (if concat (map (marine_alerts_of self) m) = [] then 0 else 25)
                + p3 + p4 + calculate_traditional_patterns self w,
                (if b then [bora_tag @ reason] else [])
                @ (if concat (map (marine_alerts_of self) m) = [] then []
                   else [marine_tag @ join ''; '' (concat (map (marine_alerts_of self) m))])
                @ rs3 @ rs4,
                if b then ''CRITICAL'' else ''LOW''))"
    "(p3 = 0 \<and> rs3 = []) \<or> (p3 = 30 \<and> (\<exists>text. rs3 = [lightning_tag @ text]))"
    "(p4 = 0 \<and> rs4 = []) \<or> (p4 = 15 \<and> (\<exists>g a c. rs4 = [thermal_tag @ fmt1 g @ degree_C
                                       @ '' difference (Inland: '' @ fmt1 a @ degree_C
                                       @ '', Coastal: '' @ fmt1 c @ degree_C @ '')'']))"
proof -
  obtain b reason where bora: "check_bora_pattern arith self w = Inr (b, reason)"
    and shape: "b \<longrightarrow> (\<exists>x y. reason = ''BORA PATTERN DETECTED: Pressure diff '' @ fmt1 x
                          @ ''hPa, NE winds '' @ fmt1 y @ ''km/h'')"
    using check_bora_pattern_total by blast
  obtain p3 rs3 where l3: "\<And>s r lv. lightning_block arith self now l (s, r, lv) = Inr (s + p3, r @ rs3, lv)"
    and c3: "(p3 = 0 \<and> rs3 = []) \<or> (p3 = 30 \<and> (\<exists>text. rs3 = [lightning_tag @ text]))"
    using lightning_block_cases [OF assms, where arith = arith and now = now and ld = l]
    by blast
  obtain p4 rs4 where l4: "\<And>s r lv. thermal_block arith self w (s, r, lv) = Inr (s + p4, r @ rs4, lv)"
    and c4: "(p4 = 0 \<and> rs4 = []) \<or> (p4 = 15 \<and> (\<exists>g a c. rs4 = [thermal_tag @ fmt1 g @ degree_C
                                       @ '' difference (Inland: '' @ fmt1 a @ degree_C
                                       @ '', Coastal: '' @ fmt1 c @ degree_C @ '')'']))"
    using thermal_block_cases [where arith = arith and self = self and w = w] by blast
  have "accumulate_score arith self now w m l =
       Inr (b, ((if b then 60 else 0)
                + (if concat (map (marine_alerts_of self) m) = [] then 0 else 25)
                + p3 + p4 + calculate_traditional_patterns self w,
                (if b then [bora_tag @ reason] else [])
                @ (if concat (map (marine_alerts_of self) m) = [] then []
                   else [marine_tag @ join ''; '' (concat (map (marine_alerts_of self) m))])
                @ rs3 @ rs4,
                if b then ''CRITICAL'' else ''LOW''))" for m
    by (simp add: accumulate_score_def bora_block_eq [OF bora] marine_block_eq l3 l4)
  with bora shape c3 c4 that show thesis by blast
qed

lemma calculate_enhanced_alerts_raises:
  assumes "accumulate_score arith self now w m l = Inr (b, vars)"
    and "log_raises LogAlertCalculation"
  shows "calculate_enhanced_alerts arith log_raises self now w m l = Inl LoggerError"
  using assms
  by (cases vars) (simp add: calculate_enhanced_alerts_def calculate_with_eta_def Let_def)

lemma calculate_enhanced_alerts_eq:
  assumes "accumulate_score arith self now w m l = Inr (b, (score, reasons, level0))"
    and "\<not> log_raises LogAlertCalculation"
  shows "calculate_enhanced_alerts arith log_raises self now w m l =
     Inr (min score 100, reasons,
          if level0 = ''CRITICAL'' then level0
          else if score > 70 then ''HIGH''
          else if score > 40 then ''MEDIUM''
          else if score > 20 then ''LOW''
          else level0)"
  using assms by (simp add: calculate_enhanced_alerts_def calculate_with_eta_def Let_def)

lemma sample_marine:
  "marine_alerts_of test_calculator falconara_rough =
    [''Falconara_Offshore: Short wave period 3.0s'', ''Falconara_Offshore: High waves 2.5m'']"
  by (simp add: marine_alerts_of_def sample_defs text_eval)

lemma sample_lightning:
  "lightning_block exact_arith test_calculator test_now (replicate 11 strike_nearby) (s, r, l) =
     Inr (s + 30, r @ [lightning_tag @ ''11 strikes, avg distance 50.0km''], l)"
  by (simp add: lightning_block_def py_mean_def sample_defs text_eval sum_list_replicate)

lemma sample_thermal:
  "thermal_block exact_arith test_calculator [trieste_bora, ancona_calm, gubbio_cold] (s, r, l) =
     Inr (s + 15, r @ [thermal_tag @ ''14.5'' @ degree_C @ '' difference (Inland: 2.0'' @ degree_C
                       @ '', Coastal: 16.5'' @ degree_C @ '')''], l)"
  by (simp add: thermal_block_def py_mean_def sample_defs text_eval)

lemma sample_traditional:
  "calculate_traditional_patterns test_calculator [trieste_bora, ancona_calm, gubbio_cold] = 10"
  by (simp add: calculate_traditional_patterns_def traditional_turn_def sample_defs)

lemma sample_all_buckets:
  "accumulate_score exact_arith test_calculator test_now [trieste_bora, ancona_calm, gubbio_cold]
     [falconara_rough, falconara_rough] (replicate 11 strike_nearby) =
   Inr (True, (140,
     [bora_tag @ ''BORA PATTERN DETECTED: Pressure diff 15.0hPa, NE winds 50.0km/h'',
      marine_tag @ ''Falconara_Offshore: Short wave period 3.0s; Falconara_Offshore: High waves 2.5m; Falconara_Offshore: Short wave period 3.0s; Falconara_Offshore: High waves 2.5m'',
      lightning_tag @ ''11 strikes, avg distance 50.0km'',
      thermal_tag @ ''14.5'' @ degree_C @ '' difference (Inland: 2.0'' @ degree_C
                       @ '', Coastal: 16.5'' @ degree_C @ '')''],
     ''CRITICAL''))"
  by (simp add: accumulate_score_def bora_block_eq [OF sample_bora(2)] marine_block_eq sample_marine
       sample_lightning sample_thermal sample_traditional)

text \<open>
  \<^bold>\<open>C2\<close>: whenever the Bora pattern is detected (by \<^verbatim>\<open>check_bora_pattern\<close>, in the
  float arithmetic of the call, whatever it is), \<^verbatim>\<open>calculate_enhanced_alerts\<close> returns
  level CRITICAL and a final score \<open>s\<close> with \<open>60 \<le> s \<le> 100\<close>, whatever the other
  weather readings, the marine readings and the lightning strikes of the call are. This
  is for the calls that return: the lightning density threshold of the configuration is
  not negative, as in \<^verbatim>\<open>config.py\<close>, and the logger call at the end of the function
  does not raise. When that logger call raises, the function raises and returns nothing.
\<close>

theorem bora_forces_critical:
  assumes "0 \<le> LIGHTNING_DENSITY_THRESHOLD (config self)"
    and "check_bora_pattern arith self w = Inr (True, reason)"
  shows "(\<not> log_raises LogAlertCalculation \<longrightarrow>
            (\<exists>score reasons.
               calculate_enhanced_alerts arith log_raises self now w m l
                 = Inr (score, reasons, ''CRITICAL'')
               \<and> 60 \<le> score \<and> score \<le> 100))
         \<and> (log_raises LogAlertCalculation \<longrightarrow>
            calculate_enhanced_alerts arith log_raises self now w m l = Inl LoggerError)"
proof -
  from assms(1) obtain b reason' p3 rs3 p4 rs4 where
    bora: "check_bora_pattern arith self w = Inr (b, reason')"
    and acc: "\<And>m. accumulate_score arith self now w m l =
       Inr (b, ((if b then 60 else 0)
                + (if concat (map (marine_alerts_of self) m) = [] then 0 else 25)
                + p3 + p4 + calculate_traditional_patterns self w,
                (if b then [bora_tag @ reason'] else [])
                @ (if concat (map (marine_alerts_of self) m) = [] then []
                   else [marine_tag @ join ''; '' (concat (map (marine_alerts_of self) m))])
                @ rs3 @ rs4,
                if b then ''CRITICAL'' else ''LOW''))"
    and c3: "(p3 = 0 \<and> rs3 = []) \<or> (p3 = 30 \<and> (\<exists>text. rs3 = [lightning_tag @ text]))"
    and c4: "(p4 = 0 \<and> rs4 = []) \<or> (p4 = 15 \<and> (\<exists>g a c. rs4 = [thermal_tag @ fmt1 g @ degree_C
                                       @ '' difference (Inland: '' @ fmt1 a @ degree_C
                                       @ '', Coastal: '' @ fmt1 c @ degree_C @ '')'']))"
    by (rule accumulate_score_cases [where arith = arith and w = w and now = now and l = l])
      blast
  from bora assms(2) have b: "b" by simp
  define raw where "raw = 60 + (if concat (map (marine_alerts_of self) m) = [] then 0 else 25)
                + p3 + p4 + calculate_traditional_patterns self w"
  have "0 \<le> p3" "0 \<le> p4" using c3 c4 by auto
  with traditional_nonneg [of self w] have raw: "60 \<le> raw"
    by (simp add: raw_def)
  from acc [of m] b have "calculate_enhanced_alerts arith log_raises self now w m l =
      Inr (min raw 100, [bora_tag @ reason']
                @ (if concat (map (marine_alerts_of self) m) = [] then []
                   else [marine_tag @ join ''; '' (concat (map (marine_alerts_of self) m))])
                @ rs3 @ rs4, ''CRITICAL'')"
    if "\<not> log_raises LogAlertCalculation"
    using that by (simp add: calculate_enhanced_alerts_eq raw_def)
  moreover from raw have "60 \<le> min raw 100" "min raw 100 \<le> 100" by simp_all
  moreover have "calculate_enhanced_alerts arith log_raises self now w m l = Inl LoggerError"
    if "log_raises LogAlertCalculation"
    using acc [of m] that by (rule calculate_enhanced_alerts_raises)
  ultimately show ?thesis by blast
qed

theorem bora_forces_critical_witness:
  "\<exists>score reasons.
     calculate_enhanced_alerts exact_arith quiet_logger test_calculator test_now [trieste_bora, ancona_calm, gubbio_cold]
       [falconara_rough, falconara_rough] (replicate 11 strike_nearby)
       = Inr (score, reasons, ''CRITICAL'')
     \<and> 60 \<le> score \<and> score \<le> 100"
  using bora_forces_critical [OF sample_threshold sample_bora(2), where log_raises = quiet_logger]
    sample_logger [of LogAlertCalculation]
  by blast

text \<open>
  \<^bold>\<open>C8\<close>: for every input triple the score lies between 0 and 100. The sum before
  the clamp is made of the contributions 60, 25, 30 and 15, each present or absent, and
  of 10, 15 and 5 per station; it is never negative, and its minimum with 100 is the
  score that the function returns, when the logger call at its end does not raise; when
  that call raises, the function raises and returns no score. (Lightning density threshold
  not negative, as above.)
\<close>

theorem score_clamped:
  assumes "0 \<le> LIGHTNING_DENSITY_THRESHOLD (config self)"
  shows "\<exists>bora raw reasons level0 level p1 p2 p3 p4.
      accumulate_score arith self now w m l = Inr (bora, (raw, reasons, level0))
    \<and> raw = p1 + p2 + p3 + p4
          + (\<Sum>d\<leftarrow>w. (if wind_speed d > HIGH_WIND_THRESHOLD (config self) then 10 else 0)
                   + (if weather_main d \<in> {''Thunderstorm'', ''Rain''} then 15 else 0)
                   + (if humidity d > 85 then 5 else 0))
    \<and> (p1 = 0 \<or> p1 = 60) \<and> (p2 = 0 \<or> p2 = 25) \<and> (p3 = 0 \<or> p3 = 30) \<and> (p4 = 0 \<or> p4 = 15)
    \<and> 0 \<le> raw \<and> 0 \<le> min raw 100 \<and> min raw 100 \<le> 100
    \<and> (\<not> log_raises LogAlertCalculation \<longrightarrow>
          calculate_enhanced_alerts arith log_raises self now w m l
            = Inr (min raw 100, reasons, level))
    \<and> (log_raises LogAlertCalculation \<longrightarrow>
          calculate_enhanced_alerts arith log_raises self now w m l = Inl LoggerError)"
proof -
  from assms obtain b reason' p3 rs3 p4 rs4 where
    acc: "\<And>m. accumulate_score arith self now w m l =
       Inr (b, ((if b then 60 else 0)
                + (if concat (map (marine_alerts_of self) m) = [] then 0 else 25)
                + p3 + p4 + calculate_traditional_patterns self w,
                (if b then [bora_tag @ reason'] else [])
                @ (if concat (map (marine_alerts_of self) m) = [] then []
                   else [marine_tag @ join ''; '' (concat (map (marine_alerts_of self) m))])
                @ rs3 @ rs4,
                if b then ''CRITICAL'' else ''LOW''))"
    and c3: "(p3 = 0 \<and> rs3 = []) \<or> (p3 = 30 \<and> (\<exists>text. rs3 = [lightning_tag @ text]))"
    and c4: "(p4 = 0 \<and> rs4 = []) \<or> (p4 = 15 \<and> (\<exists>g a c. rs4 = [thermal_tag @ fmt1 g @ degree_C
                                       @ '' difference (Inland: '' @ fmt1 a @ degree_C
                                       @ '', Coastal: '' @ fmt1 c @ degree_C @ '')'']))"
    by (rule accumulate_score_cases [where arith = arith and w = w and now = now and l = l])
      blast
  define p1 :: rat where "p1 = (if b then 60 else 0)"
  define p2 :: rat where "p2 = (if concat (map (marine_alerts_of self) m) = [] then 0 else 25)"
  define raw where "raw = p1 + p2 + p3 + p4 + calculate_traditional_patterns self w"
  define reasons where "reasons = (if b then [bora_tag @ reason'] else [])
                @ (if concat (map (marine_alerts_of self) m) = [] then []
                   else [marine_tag @ join ''; '' (concat (map (marine_alerts_of self) m))])
                @ rs3 @ rs4"
  have a: "accumulate_score arith self now w m l = Inr (b, (raw, reasons, if b then ''CRITICAL'' else ''LOW''))"
    by (simp add: acc raw_def p1_def p2_def reasons_def)
  have ps: "(p1 = 0 \<or> p1 = 60)" "(p2 = 0 \<or> p2 = 25)" "(p3 = 0 \<or> p3 = 30)" "(p4 = 0 \<or> p4 = 15)"
    using c3 c4 by (auto simp: p1_def p2_def)
  then have "0 \<le> p1" "0 \<le> p2" "0 \<le> p3" "0 \<le> p4" by auto
  with traditional_nonneg [of self w] have nonneg: "0 \<le> raw"
    by (simp add: raw_def)
  have sum: "raw = p1 + p2 + p3 + p4
          + (\<Sum>d\<leftarrow>w. (if wind_speed d > HIGH_WIND_THRESHOLD (config self) then 10 else 0)
                   + (if weather_main d \<in> {''Thunderstorm'', ''Rain''} then 15 else 0)
                   + (if humidity d > 85 then 5 else 0))"
    by (simp only: raw_def calculate_traditional_patterns_sum)
  from nonneg have bounds: "0 \<le> min raw 100" "min raw 100 \<le> 100" by simp_all
  define level where "level = (if b then ''CRITICAL''
      else if raw > 70 then ''HIGH'' else if raw > 40 then ''MEDIUM''
      else if raw > 20 then ''LOW'' else ''LOW'')"
  have returns: "calculate_enhanced_alerts arith log_raises self now w m l
      = Inr (min raw 100, reasons, level)" if "\<not> log_raises LogAlertCalculation"
    using calculate_enhanced_alerts_eq [where log_raises = log_raises and b = b
        and score = raw and reasons = reasons
        and ?level0.0 = "if b then ''CRITICAL'' else ''LOW''", OF a that]
    by (simp add: level_def)
  have raises: "calculate_enhanced_alerts arith log_raises self now w m l = Inl LoggerError"
    if "log_raises LogAlertCalculation"
    using a that by (rule calculate_enhanced_alerts_raises)
  from a sum ps nonneg bounds returns raises show ?thesis
    by blast
qed

theorem score_clamped_witness:
  "calculate_enhanced_alerts exact_arith quiet_logger test_calculator test_now [trieste_bora, ancona_calm, gubbio_cold]
       [falconara_rough, falconara_rough] (replicate 11 strike_nearby)
     = Inr (100,
       [bora_tag @ ''BORA PATTERN DETECTED: Pressure diff 15.0hPa, NE winds 50.0km/h'',
        marine_tag @ ''Falconara_Offshore: Short wave period 3.0s; Falconara_Offshore: High waves 2.5m; Falconara_Offshore: Short wave period 3.0s; Falconara_Offshore: High waves 2.5m'',
        lightning_tag @ ''11 strikes, avg distance 50.0km'',
        thermal_tag @ ''14.5'' @ degree_C @ '' difference (Inland: 2.0'' @ degree_C
                       @ '', Coastal: 16.5'' @ degree_C @ '')''],
       ''CRITICAL'')"
proof -
  from score_clamped [OF sample_threshold, where arith = exact_arith and now = test_now
      and w = "[trieste_bora, ancona_calm, gubbio_cold]"
      and m = "[falconara_rough, falconara_rough]" and l = "replicate 11 strike_nearby"
      and log_raises = quiet_logger] sample_logger [of LogAlertCalculation]
  obtain raw reasons level where
    "accumulate_score exact_arith test_calculator test_now [trieste_bora, ancona_calm, gubbio_cold]
       [falconara_rough, falconara_rough] (replicate 11 strike_nearby)
       = Inr (True, (raw, reasons, ''CRITICAL''))"
    and "calculate_enhanced_alerts exact_arith quiet_logger test_calculator test_now [trieste_bora, ancona_calm, gubbio_cold]
       [falconara_rough, falconara_rough] (replicate 11 strike_nearby)
       = Inr (min raw 100, reasons, level)"
    unfolding sample_all_buckets by auto
  then show ?thesis
    by (simp add: sample_all_buckets calculate_enhanced_alerts_eq sample_logger)
qed

text \<open>
  \<^bold>\<open>C9\<close>: when at least one marine reading has a wave period below the wave-period
  threshold or a wave height above the wave-height threshold, the marine block adds 25
  points once, however many readings are flagged, and appends exactly one reason, the
  marine tag followed by all fragments joined with \<open>; \<close>. Compared with the same call
  without marine readings, the sum before the clamp is larger by exactly 25, and the
  reasons are the same with that one reason inserted after the Bora reason. These are
  the values of the function's variables before its logger call; when that call does not
  raise, the function returns the clamped sum and these reasons. (Lightning density
  threshold not negative, as above.)
\<close>

theorem marine_adds_25_once:
  assumes "0 \<le> LIGHTNING_DENSITY_THRESHOLD (config self)"
    and "\<exists>d \<in> set m. wave_period d < WAVE_PERIOD_THRESHOLD (config self)
                    \<or> wave_height d > WAVE_HEIGHT_THRESHOLD (config self)"
  shows "\<exists>bora score before after level level'.
      accumulate_score arith self now w [] l = Inr (bora, (score, before @ after, level))
    \<and> accumulate_score arith self now w m l =
        Inr (bora, (score + 25,
                    before @ [marine_tag @ join ''; '' (concat (map (marine_alerts_of self) m))]
                      @ after,
                    level))
    \<and> (\<not> log_raises LogAlertCalculation \<longrightarrow>
          calculate_enhanced_alerts arith log_raises self now w m l =
            Inr (min (score + 25) 100,
                 before @ [marine_tag @ join ''; '' (concat (map (marine_alerts_of self) m))]
                   @ after,
                 level'))"
proof -
  from assms(1) obtain b reason' p3 rs3 p4 rs4 where
    acc: "\<And>m. accumulate_score arith self now w m l =
       Inr (b, ((if b then 60 else 0)
                + (if concat (map (marine_alerts_of self) m) = [] then 0 else 25)
                + p3 + p4 + calculate_traditional_patterns self w,
                (if b then [bora_tag @ reason'] else [])
                @ (if concat (map (marine_alerts_of self) m) = [] then []
                   else [marine_tag @ join ''; '' (concat (map (marine_alerts_of self) m))])
                @ rs3 @ rs4,
                if b then ''CRITICAL'' else ''LOW''))"
    by (rule accumulate_score_cases [where arith = arith and w = w and now = now and l = l])
      blast
  from assms(2) have flagged: "concat (map (marine_alerts_of self) m) \<noteq> []"
    by (simp only: marine_alerts_empty_iff) simp
  define score where "score = (if b then 60 else 0) + p3 + p4 + calculate_traditional_patterns self w"
  define before where "before = (if b then [bora_tag @ reason'] else [])"
  define after where "after = rs3 @ rs4"
  define mr where "mr = marine_tag @ join ''; '' (concat (map (marine_alerts_of self) m))"
  have a0: "accumulate_score arith self now w [] l = Inr (b, (score, before @ after, if b then ''CRITICAL'' else ''LOW''))"
    by (simp add: acc score_def before_def after_def)
  have a1: "accumulate_score arith self now w m l = Inr (b, (score + 25, before @ [mr] @ after, if b then ''CRITICAL'' else ''LOW''))"
    using flagged by (simp add: acc score_def before_def after_def mr_def)
  define level' where "level' = (if b then ''CRITICAL''
      else if score + 25 > 70 then ''HIGH'' else if score + 25 > 40 then ''MEDIUM''
      else if score + 25 > 20 then ''LOW'' else ''LOW'')"
  have "calculate_enhanced_alerts arith log_raises self now w m l
      = Inr (min (score + 25) 100, before @ [mr] @ after, level')"
    if "\<not> log_raises LogAlertCalculation"
    using calculate_enhanced_alerts_eq [where log_raises = log_raises and b = b
        and score = "score + 25" and reasons = "before @ [mr] @ after"
        and ?level0.0 = "if b then ''CRITICAL'' else ''LOW''", OF a1 that]
    by (simp add: level'_def)
  with a0 a1 show ?thesis
    unfolding mr_def by blast
qed

theorem marine_adds_25_once_witness:
  "\<exists>bora score before after level.
      accumulate_score exact_arith test_calculator test_now [trieste_bora, ancona_calm, gubbio_cold] []
        (replicate 11 strike_nearby) = Inr (bora, (score, before @ after, level))
    \<and> accumulate_score exact_arith test_calculator test_now [trieste_bora, ancona_calm, gubbio_cold]
        [falconara_rough, falconara_rough] (replicate 11 strike_nearby) =
        Inr (bora, (score + 25,
                    before @ [marine_tag @ ''Falconara_Offshore: Short wave period 3.0s; Falconara_Offshore: High waves 2.5m; Falconara_Offshore: Short wave period 3.0s; Falconara_Offshore: High waves 2.5m'']
                      @ after,
                    level))"
proof -
  have flagged: "\<exists>d \<in> set [falconara_rough, falconara_rough].
      wave_period d < WAVE_PERIOD_THRESHOLD (config test_calculator)
      \<or> wave_height d > WAVE_HEIGHT_THRESHOLD (config test_calculator)"
    by (simp add: sample_defs)
  from marine_adds_25_once [OF sample_threshold flagged, where arith = exact_arith
      and now = test_now and w = "[trieste_bora, ancona_calm, gubbio_cold]"
      and l = "replicate 11 strike_nearby" and log_raises = quiet_logger]
  show ?thesis
    by (simp add: sample_marine) blast
qed

subsection \<open>The reasons and the ETA\<close>

lemma str_contains_prefix: "str_contains (sub @ b) sub"
proof (cases "sub @ b")
  case Nil
  then show ?thesis by simp
next
  case (Cons c cs)
  have "take (length sub) (sub @ b) = sub" by simp
  with Cons show ?thesis by simp
qed

lemma str_contains_appendI: "str_contains (a @ sub @ b) sub"
  by (induction a) (simp_all add: str_contains_prefix)

lemma str_contains_set: "str_contains s sub \<Longrightarrow> set sub \<subseteq> set s"
proof (induction s)
  case Nil
  then show ?case by simp
next
  case (Cons c cs)
  from Cons.prems have "take (length sub) (c # cs) = sub \<or> str_contains cs sub" by simp
  then show ?case
  proof
    assume "take (length sub) (c # cs) = sub"
    then have "set sub = set (take (length sub) (c # cs))" by simp
    also have "\<dots> \<subseteq> set (c # cs)" by (rule set_take_subset)
    finally show ?thesis .
  next
    assume "str_contains cs sub"
    with Cons.IH show ?thesis by auto
  qed
qed

lemma digit_char_code: "d < 10 \<Longrightarrow> (of_char (digit_char d) :: nat) = 48 + d"
  by (simp add: digit_char_def)

lemma str_nat_codes:
  "c \<in> set (str_nat n) \<Longrightarrow> 48 \<le> (of_char c :: nat) \<and> (of_char c :: nat) < 58"
proof (induction n rule: str_nat.induct)
  case (1 n)
  show ?case
  proof (cases "n < 10")
    case True
    with "1.prems" have "c = digit_char n"
      by (subst (asm) str_nat.simps) simp
    with True show ?thesis by (simp add: digit_char_code)
  next
    case False
    with "1.prems" have "c \<in> set (str_nat (n div 10)) \<or> c = digit_char (n mod 10)"
      by (subst (asm) str_nat.simps) auto
    then show ?thesis
    proof
      assume "c \<in> set (str_nat (n div 10))"
      with "1.IH" False show ?thesis by blast
    next
      assume "c = digit_char (n mod 10)"
      then show ?thesis by (simp add: digit_char_code)
    qed
  qed
qed

lemma fmt1_codes: "c \<in> set (fmt1 x) \<Longrightarrow> (of_char c :: nat) < 58"
proof -
  define n where "n = nat (round_half_even (\<bar>x\<bar> * 10))"
  assume "c \<in> set (fmt1 x)"
  then have "c = CHR ''-'' \<or> c \<in> set (str_nat (n div 10)) \<or> c = CHR ''.''
      \<or> c = digit_char (n mod 10)"
    by (auto simp: fmt1_def Let_def n_def split: if_splits)
  then show ?thesis
    using str_nat_codes [of c "n div 10"] by (auto simp: digit_char_code)
qed

lemma fmt1_no_G_F: "CHR ''G'' \<notin> set (fmt1 x)" "CHR ''F'' \<notin> set (fmt1 x)"
  using fmt1_codes [of "CHR ''G''" x] fmt1_codes [of "CHR ''F''" x] by auto

lemma marine_reason_tagged: "str_contains (marine_tag @ body) ''MARINE''"
proof -
  have "marine_tag @ body =
      [CHR 0xF0, CHR 0x9F, CHR 0x8C, CHR 0x8A, CHR '' ''] @ ''MARINE'' @ ('': '' @ body)"
    by (simp add: marine_tag_def)
  then show ?thesis
    by (simp only: str_contains_appendI)
qed

lemma lightning_reason_tagged: "str_contains (lightning_tag @ body) ''LIGHTNING''"
proof -
  have "lightning_tag @ body =
      [CHR 0xE2, CHR 0x9A, CHR 0xA1, CHR '' ''] @ ''LIGHTNING''
      @ ('': Lightning approaching: '' @ body)"
    by (simp add: lightning_tag_def)
  then show ?thesis
    by (simp only: str_contains_appendI)
qed

lemma bora_reason_no_G_F:
  "CHR ''G'' \<notin> set (bora_tag @ ''BORA PATTERN DETECTED: Pressure diff '' @ fmt1 x
                          @ ''hPa, NE winds '' @ fmt1 y @ ''km/h'')"
  "CHR ''F'' \<notin> set (bora_tag @ ''BORA PATTERN DETECTED: Pressure diff '' @ fmt1 x
                          @ ''hPa, NE winds '' @ fmt1 y @ ''km/h'')"
  by (simp_all add: bora_tag_def fmt1_no_G_F)

lemma thermal_reason_no_G_F:
  "CHR ''G'' \<notin> set (thermal_tag @ fmt1 g @ degree_C
                                       @ '' difference (Inland: '' @ fmt1 a @ degree_C
                                       @ '', Coastal: '' @ fmt1 c @ degree_C @ '')'')"
  "CHR ''F'' \<notin> set (thermal_tag @ fmt1 g @ degree_C
                                       @ '' difference (Inland: '' @ fmt1 a @ degree_C
                                       @ '', Coastal: '' @ fmt1 c @ degree_C @ '')'')"
  by (simp_all add: thermal_tag_def degree_C_def fmt1_no_G_F)

lemma eta_not_1_2_hours:
  assumes "\<And>r. r \<in> set reasons \<Longrightarrow>
     str_contains r ''LIGHTNING'' \<or> str_contains r ''MARINE''
     \<or> (CHR ''G'' \<notin> set r \<and> CHR ''F'' \<notin> set r)"
  shows "get_enhanced_eta reasons flag \<noteq> ''1-2 hours''"
proof -
  have "\<not> (str_contains r ''Gubbio'' \<or> str_contains r ''Fabriano'')"
    if "r \<in> set reasons" "\<not> str_contains r ''LIGHTNING''" "\<not> str_contains r ''MARINE''" for r
  proof -
    from assms [OF that(1)] that(2,3) have "CHR ''G'' \<notin> set r" "CHR ''F'' \<notin> set r" by auto
    then show ?thesis
      using str_contains_set [of r "''Gubbio''"] str_contains_set [of r "''Fabriano''"] by auto
  qed
  then show ?thesis
    by (auto simp: get_enhanced_eta_def list_ex_iff)
qed

lemma sample_no_bora: "check_bora_pattern exact_arith test_calculator [ancona_calm] = Inr (False, [])"
  by (simp add: check_bora_pattern_def sample_defs)

lemma sample_gubbio_marine:
  "marine_alerts_of test_calculator (falconara_rough\<lparr>location := ''Gubbio''\<rparr>) =
     [''Gubbio: Short wave period 3.0s'', ''Gubbio: High waves 2.5m'']"
  by (simp add: marine_alerts_of_def sample_defs text_eval)

lemma sample_gubbio_eta:
  "calculate_with_eta exact_arith quiet_logger test_calculator test_now [ancona_calm]
     [falconara_rough\<lparr>location := ''Gubbio''\<rparr>] [] =
   Inr ((25, [marine_tag @ ''Gubbio: Short wave period 3.0s; Gubbio: High waves 2.5m''], ''LOW''),
        ''45-90 minutes'')"
proof -
  have acc: "accumulate_score exact_arith test_calculator test_now [ancona_calm]
     [falconara_rough\<lparr>location := ''Gubbio''\<rparr>] [] =
     Inr (False, (25, [marine_tag @ ''Gubbio: Short wave period 3.0s; Gubbio: High waves 2.5m''], ''LOW''))"
  proof -
    have "thermal_block exact_arith test_calculator [ancona_calm] vars = Inr vars" for vars
      by (cases vars) (simp add: thermal_block_def sample_defs)
    moreover have "calculate_traditional_patterns test_calculator [ancona_calm] = 0"
      by (simp add: calculate_traditional_patterns_def traditional_turn_def sample_defs)
    moreover have "lightning_block exact_arith test_calculator test_now [] vars = Inr vars" for vars
      by (cases vars) (simp add: lightning_block_def)
    ultimately show ?thesis
      by (simp add: accumulate_score_def bora_block_eq [OF sample_no_bora] marine_block_eq
          sample_gubbio_marine)
  qed
  have eta: "get_enhanced_eta
      [marine_tag @ ''Gubbio: Short wave period 3.0s; Gubbio: High waves 2.5m''] False
      = ''45-90 minutes''"
    by (simp add: get_enhanced_eta_def marine_tag_def)
  show ?thesis
    by (simp add: calculate_with_eta_def acc eta sample_logger)
qed

text \<open>
  \<^bold>\<open>C10\<close>: the ETA \<open>1-2 hours\<close> cannot come out of reasons that the engine generates.
  For every input, \<^verbatim>\<open>get_enhanced_eta\<close> of the reasons list that
  \<^verbatim>\<open>calculate_enhanced_alerts\<close> builds is not \<open>1-2 hours\<close>, with the function's own Bora
  flag and with any other flag (the caller in \<^verbatim>\<open>main.py\<close> recomputes the flag from the
  reasons). The marine reason, the only one that embeds a name, contains \<open>MARINE\<close>; the
  lightning reason contains \<open>LIGHTNING\<close>; the Bora and thermal reasons contain neither
  the letter \<open>G\<close> nor the letter \<open>F\<close>. When the logger call at the end of the function
  does not raise, these reasons are the ones returned, and the ETA passed to the logger
  is the one of the function's own flag. (Lightning density threshold not negative, as
  above.)
\<close>

theorem eta_never_1_2_hours:
  assumes "0 \<le> LIGHTNING_DENSITY_THRESHOLD (config self)"
  shows "\<exists>bora raw reasons level0 level.
      accumulate_score arith self now w m l = Inr (bora, (raw, reasons, level0))
    \<and> get_enhanced_eta reasons bora \<noteq> ''1-2 hours''
    \<and> (\<forall>bora_detected. get_enhanced_eta reasons bora_detected \<noteq> ''1-2 hours'')
    \<and> (\<not> log_raises LogAlertCalculation \<longrightarrow>
          calculate_with_eta arith log_raises self now w m l
            = Inr ((min raw 100, reasons, level), get_enhanced_eta reasons bora)
          \<and> calculate_enhanced_alerts arith log_raises self now w m l
            = Inr (min raw 100, reasons, level))"
proof -
  from assms obtain b reason p3 rs3 p4 rs4 where
    shape: "b \<longrightarrow> (\<exists>x y. reason = ''BORA PATTERN DETECTED: Pressure diff '' @ fmt1 x
                          @ ''hPa, NE winds '' @ fmt1 y @ ''km/h'')"
    and acc: "\<And>m. accumulate_score arith self now w m l =
       Inr (b, ((if b then 60 else 0)
                + (if concat (map (marine_alerts_of self) m) = [] then 0 else 25)
                + p3 + p4 + calculate_traditional_patterns self w,
                (if b then [bora_tag @ reason] else [])
                @ (if concat (map (marine_alerts_of self) m) = [] then []
                   else [marine_tag @ join ''; '' (concat (map (marine_alerts_of self) m))])
                @ rs3 @ rs4,
                if b then ''CRITICAL'' else ''LOW''))"
    and c3: "(p3 = 0 \<and> rs3 = []) \<or> (p3 = 30 \<and> (\<exists>text. rs3 = [lightning_tag @ text]))"
    and c4: "(p4 = 0 \<and> rs4 = []) \<or> (p4 = 15 \<and> (\<exists>g a c. rs4 = [thermal_tag @ fmt1 g @ degree_C
                                       @ '' difference (Inland: '' @ fmt1 a @ degree_C
                                       @ '', Coastal: '' @ fmt1 c @ degree_C @ '')'']))"
    by (rule accumulate_score_cases [where arith = arith and w = w and now = now and l = l])
      blast
  define reasons where "reasons = (if b then [bora_tag @ reason] else [])
                @ (if concat (map (marine_alerts_of self) m) = [] then []
                   else [marine_tag @ join ''; '' (concat (map (marine_alerts_of self) m))])
                @ rs3 @ rs4"
  define score where "score = (if b then 60 else 0)
                + (if concat (map (marine_alerts_of self) m) = [] then 0 else 25)
                + p3 + p4 + calculate_traditional_patterns self w"
  have a: "accumulate_score arith self now w m l = Inr (b, (score, reasons, if b then ''CRITICAL'' else ''LOW''))"
    by (simp add: acc reasons_def score_def)
  have ok: "str_contains r ''LIGHTNING'' \<or> str_contains r ''MARINE''
     \<or> (CHR ''G'' \<notin> set r \<and> CHR ''F'' \<notin> set r)" if "r \<in> set reasons" for r
  proof -
    from that consider
        (bora) "b" "r = bora_tag @ reason"
      | (marine) "r = marine_tag @ join ''; '' (concat (map (marine_alerts_of self) m))"
      | (lightning) "r \<in> set rs3"
      | (thermal) "r \<in> set rs4"
      by (auto simp: reasons_def split: if_splits)
    then show ?thesis
    proof cases
      case bora
      with shape show ?thesis using bora_reason_no_G_F by auto
    next
      case marine
      then show ?thesis by (simp only: marine_reason_tagged) simp
    next
      case lightning
      with c3 show ?thesis using lightning_reason_tagged by auto
    next
      case thermal
      with c4 show ?thesis using thermal_reason_no_G_F by auto
    qed
  qed
  have eta: "get_enhanced_eta reasons flag \<noteq> ''1-2 hours''" for flag
    using ok by (rule eta_not_1_2_hours)
  define level where "level = (if b then ''CRITICAL''
      else if score > 70 then ''HIGH'' else if score > 40 then ''MEDIUM''
      else if score > 20 then ''LOW'' else ''LOW'')"
  have calc: "calculate_with_eta arith log_raises self now w m l =
      Inr ((min score 100, reasons, level), get_enhanced_eta reasons b)"
    if "\<not> log_raises LogAlertCalculation"
    using a that by (simp add: calculate_with_eta_def Let_def level_def)
  then have "calculate_enhanced_alerts arith log_raises self now w m l
      = Inr (min score 100, reasons, level)" if "\<not> log_raises LogAlertCalculation"
    using that by (simp add: calculate_enhanced_alerts_def)
  with a calc eta show ?thesis by blast
qed

theorem eta_never_1_2_hours_witness:
  "\<exists>score reasons level eta.
      calculate_with_eta exact_arith quiet_logger test_calculator test_now [ancona_calm]
        [falconara_rough\<lparr>location := ''Gubbio''\<rparr>] [] = Inr ((score, reasons, level), eta)
    \<and> calculate_enhanced_alerts exact_arith quiet_logger test_calculator test_now [ancona_calm]
        [falconara_rough\<lparr>location := ''Gubbio''\<rparr>] [] = Inr (score, reasons, level)
    \<and> eta \<noteq> ''1-2 hours''
    \<and> get_enhanced_eta reasons True \<noteq> ''1-2 hours''
    \<and> get_enhanced_eta reasons False \<noteq> ''1-2 hours''"
  using eta_never_1_2_hours [OF sample_threshold, where arith = exact_arith
      and log_raises = quiet_logger and now = test_now and w = "[ancona_calm]"
      and m = "[falconara_rough\<lparr>location := ''Gubbio''\<rparr>]" and l = "[]"]
    sample_logger [of LogAlertCalculation]
  by blast

section \<open>The reading store\<close>

lemma newer_than_set: "d \<in> set (newer_than cutoff ds) \<Longrightarrow> timestamp d > cutoff"
  by (simp add: newer_than_def)

lemma prune_dict_newer:
  "prune_dict cutoff dict k = Some ds \<Longrightarrow> d \<in> set ds \<Longrightarrow> timestamp d > cutoff"
  by (auto simp: prune_dict_def dest: newer_than_set)

lemma store_data_fields:
  "historical_weather (store_data self now w m l) =
     prune_dict (now - hours (DATA_RETENTION_HOURS (config self)))
       (foldl (\<lambda>d data. dict_append d (station_name data) data) (historical_weather self) w)"
  "historical_marine (store_data self now w m l) =
     prune_dict (now - hours (DATA_RETENTION_HOURS (config self)))
       (foldl (\<lambda>d data. dict_append d (location data) data) (historical_marine self) m)"
  "historical_lightning (store_data self now w m l) =
     newer_than (now - hours (DATA_RETENTION_HOURS (config self))) (historical_lightning self @ l)"
  "config (store_data self now w m l) = config self"
  by (simp_all add: store_data_def Let_def)

lemma store_one_stale_then_fresh:
  fixes dict :: "'k \<rightharpoonup> 'a Reading_scheme list"
  assumes "timestamp old \<le> c1" and "timestamp fresh > c2"
    and "\<forall>d \<in> set (dict_get dict k []). timestamp d \<le> c2"
  shows "prune_dict c2 (dict_append (prune_dict c1 (dict_append dict k old)) k fresh) k = Some [fresh]"
proof -
  from assms(3) have stale: "filter (\<lambda>d. c2 < timestamp d) (dict_get dict k []) = []"
    by (auto simp: filter_empty_conv)
  have "filter (\<lambda>d. c2 < timestamp d) (filter (\<lambda>d. c1 < timestamp d) xs) = []"
    if "filter (\<lambda>d. c2 < timestamp d) xs = []" for xs :: "'a Reading_scheme list"
    using that by (auto simp: filter_empty_conv)
  with stale assms(1,2) show ?thesis
    by (cases "dict k") (simp_all add: prune_dict_def dict_append_def newer_than_def dict_get_def)
qed

text \<open>
  \<^bold>\<open>C7\<close>: the retention window. After every call of \<^verbatim>\<open>store_data\<close> at clock reading
  \<open>now\<close>, every reading kept in the weather history (under any station), in the marine
  history (under any location) and in the lightning list has a timestamp strictly newer
  than \<open>now\<close> minus the retention horizon. In particular, storing a reading older than
  the horizon and then a fresh reading for the same key leaves exactly the fresh reading
  under that key, in the weather and in the marine history alike, provided that the store
  held nothing under that key that is still within the horizon at the second call (as
  when the key was absent).
\<close>

theorem store_data_retention:
  "(\<forall>k ds d. historical_weather (store_data self now w m l) k = Some ds \<longrightarrow> d \<in> set ds
        \<longrightarrow> timestamp d > now - hours (DATA_RETENTION_HOURS (config self)))
   \<and> (\<forall>k ds d. historical_marine (store_data self now w m l) k = Some ds \<longrightarrow> d \<in> set ds
        \<longrightarrow> timestamp d > now - hours (DATA_RETENTION_HOURS (config self)))
   \<and> (\<forall>d \<in> set (historical_lightning (store_data self now w m l)).
        timestamp d > now - hours (DATA_RETENTION_HOURS (config self)))
   \<and> (timestamp old \<le> now - hours (DATA_RETENTION_HOURS (config self))
        \<and> timestamp fresh > now' - hours (DATA_RETENTION_HOURS (config self))
        \<and> station_name old = station_name fresh
        \<and> (\<forall>d \<in> set (dict_get (historical_weather self) (station_name fresh) []).
              timestamp d \<le> now' - hours (DATA_RETENTION_HOURS (config self)))
      \<longrightarrow> historical_weather (store_data (store_data self now [old] [] []) now' [fresh] [] [])
            (station_name fresh) = Some [fresh])
   \<and> (timestamp old_m \<le> now - hours (DATA_RETENTION_HOURS (config self))
        \<and> timestamp fresh_m > now' - hours (DATA_RETENTION_HOURS (config self))
        \<and> location old_m = location fresh_m
        \<and> (\<forall>d \<in> set (dict_get (historical_marine self) (location fresh_m) []).
              timestamp d \<le> now' - hours (DATA_RETENTION_HOURS (config self)))
      \<longrightarrow> historical_marine (store_data (store_data self now [] [old_m] []) now' [] [fresh_m] [])
            (location fresh_m) = Some [fresh_m])"
proof (intro conjI allI impI ballI)
  fix k ds and d :: WeatherData
  assume "historical_weather (store_data self now w m l) k = Some ds" "d \<in> set ds"
  then show "timestamp d > now - hours (DATA_RETENTION_HOURS (config self))"
    unfolding store_data_fields by (rule prune_dict_newer)
next
  fix k ds and d :: MarineData
  assume "historical_marine (store_data self now w m l) k = Some ds" "d \<in> set ds"
  then show "timestamp d > now - hours (DATA_RETENTION_HOURS (config self))"
    unfolding store_data_fields by (rule prune_dict_newer)
next
  fix d :: LightningData
  assume "d \<in> set (historical_lightning (store_data self now w m l))"
  then show "timestamp d > now - hours (DATA_RETENTION_HOURS (config self))"
    unfolding store_data_fields by (rule newer_than_set)
next
  assume "timestamp old \<le> now - hours (DATA_RETENTION_HOURS (config self))
        \<and> timestamp fresh > now' - hours (DATA_RETENTION_HOURS (config self))
        \<and> station_name old = station_name fresh
        \<and> (\<forall>d \<in> set (dict_get (historical_weather self) (station_name fresh) []).
              timestamp d \<le> now' - hours (DATA_RETENTION_HOURS (config self)))"
  then show "historical_weather (store_data (store_data self now [old] [] []) now' [fresh] [] [])
            (station_name fresh) = Some [fresh]"
    by (simp add: store_data_fields store_one_stale_then_fresh)
next
  assume "timestamp old_m \<le> now - hours (DATA_RETENTION_HOURS (config self))
        \<and> timestamp fresh_m > now' - hours (DATA_RETENTION_HOURS (config self))
        \<and> location old_m = location fresh_m
        \<and> (\<forall>d \<in> set (dict_get (historical_marine self) (location fresh_m) []).
              timestamp d \<le> now' - hours (DATA_RETENTION_HOURS (config self)))"
  then show "historical_marine (store_data (store_data self now [] [old_m] []) now' [] [fresh_m] [])
            (location fresh_m) = Some [fresh_m]"
    by (simp add: store_data_fields store_one_stale_then_fresh)
qed

theorem store_data_retention_witness:
  "historical_weather
     (store_data (store_data test_calculator test_now
        [trieste_bora\<lparr>timestamp := test_now - hours 15\<rparr>] [] []) (test_now + minutes 30)
        [trieste_bora] [] []) ''Trieste'' = Some [trieste_bora]
   \<and> historical_marine
     (store_data (store_data test_calculator test_now []
        [falconara_rough\<lparr>timestamp := test_now - hours 15\<rparr>] []) (test_now + minutes 30)
        [] [falconara_rough] []) ''Falconara_Offshore'' = Some [falconara_rough]"
  using store_data_retention [where self = test_calculator and now = test_now
      and old = "trieste_bora\<lparr>timestamp := test_now - hours 15\<rparr>" and fresh = trieste_bora
      and now' = "test_now + minutes 30"
      and old_m = "falconara_rough\<lparr>timestamp := test_now - hours 15\<rparr>"
      and fresh_m = falconara_rough and w = "[]" and m = "[]" and l = "[]"]
  by (simp add: sample_defs hours_def dict_get_def)

section \<open>Delivery and the notifier state\<close>


















end
